theory Spec2Isabelle
  imports Main "HOL-Library.Sublist"
begin

section \<open>The connector factories of \<open>oerplib.rpc\<close>\<close>

text \<open>
  The module \<^verbatim>\<open>oerplib/rpc/__init__.py\<close> holds a registry of connector classes and two
  factory functions:
  \<^verbatim>\<open>
  PROTOCOLS = {
      'xmlrpc': connector.ConnectorXMLRPC,
      'xmlrpc+ssl': connector.ConnectorXMLRPCSSL,
      'netrpc': connector.ConnectorNetRPC,
  }

  def get_connector(server, port=8069, protocol='xmlrpc',
                    timeout=120, version=None):
      if protocol not in PROTOCOLS:
          txt = ("The protocol '{0}' is not supported. "
                 "Please choose a protocol among these ones: {1}")
          txt = txt.format(protocol, PROTOCOLS.keys())
          raise error.ConnectorError(txt)
      return PROTOCOLS[protocol](server, port, timeout, version)

  def get_json_connector(server, port=8069, timeout=120,
                         version=None, ssl=False):
      if ssl:
          return connector.ConnectorJSONRPCSSL(server, port, timeout, version)
      return connector.ConnectorJSONRPC(server, port, timeout, version)
  \<close>
  The specification calls them \<open>create_connector\<close> and \<open>create_json_connector\<close>, and calls
  the error raised for an unknown protocol \<open>UnsupportedProtocol\<close>.
\<close>

subsection \<open>Data\<close>

text \<open>The five classes of the module \<open>connector\<close> that the factories name.\<close>

datatype connector_class =
    ConnectorXMLRPC
  | ConnectorXMLRPCSSL
  | ConnectorNetRPC
  | ConnectorJSONRPC
  | ConnectorJSONRPCSSL

text \<open>
  Exceptions are values. \<open>ConnectorError\<close> is the class the factory raises itself;
  \<open>KeyError\<close> is what the subscription \<^verbatim>\<open>PROTOCOLS[protocol]\<close> raises on a missing key;
  \<open>OtherError\<close> stands for any other exception, named by its class.
\<close>

datatype error =
    ConnectorError string
  | KeyError string
  | OtherError string

text \<open>
  The port as callers pass it. The signatures give it the integer default 8069; the
  test runner (\<^verbatim>\<open>tests/args.py\<close>, option \<^verbatim>\<open>--port\<close>) holds it as a string. The
  factories hand it on as it is.
\<close>

datatype pyval = PyInt int | PyStr string

text \<open>
  What a connector sends over the network is recorded in a log, oldest event first: the
  capability probe that resolves the server's version, and the requests themselves
  (service, method, arguments).
\<close>

record request =
  rq_service :: string
  rq_method :: string
  rq_args :: "string list"

datatype net_event = Probe | Sent request

type_synonym world = "net_event list"

text \<open>
  A connector object: the class it was built from, its endpoint (server, port,
  timeout) and the API version, \<open>None\<close> while unset.
\<close>

record connector =
  c_class :: connector_class
  c_server :: string
  c_port :: pyval
  c_timeout :: int
  c_version :: "string option"

subsection \<open>Constructing a connector\<close>

text \<open>
  The module \<open>oerplib.rpc.connector\<close> is not among the sources, so what the
  constructors of its classes check is a parameter of the model: applied to the class
  and the four arguments it gives the exception the constructor raises, or \<open>None\<close>
  when it accepts them.
\<close>

type_synonym ctor_check =
  "connector_class \<Rightarrow> string \<Rightarrow> pyval \<Rightarrow> int \<Rightarrow> string option \<Rightarrow> error option"

definition connector_new ::
  "ctor_check \<Rightarrow> connector_class \<Rightarrow> string \<Rightarrow> pyval \<Rightarrow> int \<Rightarrow> string option \<Rightarrow> world
     \<Rightarrow> (error + connector) \<times> world" where
  \<comment> \<open>Modelled from the spec: the constructors of the connector classes are not among
      the sources. By sections 3 and 4.1 of the specification, construction binds the
      endpoint and the version to the selected variant and has no side effect beyond
      object construction: no network I/O occurs until the first remote call. No
      sentence says whether construction can fail; that is left to \<open>chk\<close>.\<close>
  "connector_new chk cls server port timeout version w =
     (case chk cls server port timeout version of
        Some e \<Rightarrow> (Inl e, w)
      | None \<Rightarrow>
          (Inr \<lparr>c_class = cls, c_server = server, c_port = port, c_timeout = timeout,
                c_version = version\<rparr>, w))"

text \<open>A constructor check that accepts every argument, to run the model on inputs.\<close>

definition accept_all :: ctor_check where
  "accept_all cls server port timeout version = None"

subsection \<open>The registry\<close>

text \<open>
  The dictionary literal of lines 35-39, as an association list:
  \<^verbatim>\<open>protocol in PROTOCOLS\<close> is membership among the keys, \<^verbatim>\<open>PROTOCOLS[protocol]\<close> is
  \<open>map_of\<close>, \<^verbatim>\<open>PROTOCOLS.keys()\<close> is the list of first components. A Python 2
  dictionary has no order of its own: \<^verbatim>\<open>keys()\<close> follows its hash table. The list
  holds the three entries in the order in which CPython 2.7 goes through them, on 32
  and on 64 bits: the hashes of \<open>xmlrpc+ssl\<close>, \<open>netrpc\<close> and \<open>xmlrpc\<close> put them in
  slots 1, 4 and 6 of the eight-slot table.
\<close>

definition PROTOCOLS :: "(string \<times> connector_class) list" where
  "PROTOCOLS =
     [(''xmlrpc+ssl'', ConnectorXMLRPCSSL),
      (''netrpc'', ConnectorNetRPC),
      (''xmlrpc'', ConnectorXMLRPC)]"

definition keys :: "('k \<times> 'v) list \<Rightarrow> 'k list" where
  "keys d = map fst d"

subsection \<open>The error message\<close>

definition apos :: char where
  "apos = CHR 0x27"

text \<open>
  \<^verbatim>\<open>repr\<close> of a string of plain characters (no quote, no backslash, nothing
  unprintable), which is what the keys of the registry are: the string between
  apostrophes.
\<close>

definition repr_str :: "string \<Rightarrow> string" where
  "repr_str s = apos # s @ [apos]"

fun str_join :: "string \<Rightarrow> string list \<Rightarrow> string" where
  "str_join sep [] = []"
| "str_join sep [x] = x"
| "str_join sep (x # y # ys) = x @ sep @ str_join sep (y # ys)"

text \<open>
  \<^verbatim>\<open>str\<close> of a list of strings, which is how \<^verbatim>\<open>format\<close> renders the list that
  \<^verbatim>\<open>PROTOCOLS.keys()\<close> returns in Python 2. (Python 3 returns a view instead, rendered
  as \<^verbatim>\<open>dict_keys([...])\<close> around the same quoted keys; the model is of Python 2.)
\<close>

definition str_list :: "string list \<Rightarrow> string" where
  "str_list ks = ''['' @ str_join '', '' (map repr_str ks) @ '']''"

text \<open>The template of lines 61-62 with \<open>{0}\<close> and \<open>{1}\<close> filled in (line 63).\<close>

definition unsupported_txt :: "string \<Rightarrow> string list \<Rightarrow> string" where
  "unsupported_txt protocol ks =
     ''The protocol '' @ [apos] @ protocol @ [apos] @ '' is not supported. ''
       @ ''Please choose a protocol among these ones: '' @ str_list ks"

subsection \<open>The factories\<close>

text \<open>The body of \<open>get_connector\<close> (lines 60-65), every parameter bound.\<close>

definition get_connector ::
  "ctor_check \<Rightarrow> string \<Rightarrow> pyval \<Rightarrow> string \<Rightarrow> int \<Rightarrow> string option \<Rightarrow> world
     \<Rightarrow> (error + connector) \<times> world" where
  "get_connector chk server port protocol timeout version w =
     (if protocol \<notin> set (keys PROTOCOLS)
      then (Inl (ConnectorError (unsupported_txt protocol (keys PROTOCOLS))), w)
      else (case map_of PROTOCOLS protocol of
              None \<Rightarrow> (Inl (KeyError protocol), w)
            | Some cls \<Rightarrow> connector_new chk cls server port timeout version w))"

text \<open>The body of \<open>get_json_connector\<close> (lines 75-77).\<close>

definition get_json_connector ::
  "ctor_check \<Rightarrow> string \<Rightarrow> pyval \<Rightarrow> int \<Rightarrow> string option \<Rightarrow> bool \<Rightarrow> world
     \<Rightarrow> (error + connector) \<times> world" where
  "get_json_connector chk server port timeout version ssl w =
     (if ssl then connector_new chk ConnectorJSONRPCSSL server port timeout version w
      else connector_new chk ConnectorJSONRPC server port timeout version w)"

text \<open>
  The signatures (lines 42-43 and 68-69): a call gives \<open>server\<close> and may omit every
  other argument; an omitted argument, \<open>None\<close> here, takes the default of the
  signature. For \<open>version\<close> the outer \<open>None\<close> is the omitted argument and
  \<open>Some None\<close> is Python's \<^verbatim>\<open>None\<close> passed by the caller.
\<close>

definition call_get_connector ::
  "ctor_check \<Rightarrow> string \<Rightarrow> pyval option \<Rightarrow> string option \<Rightarrow> int option
     \<Rightarrow> string option option \<Rightarrow> world \<Rightarrow> (error + connector) \<times> world" where
  "call_get_connector chk server port protocol timeout version w =
     get_connector chk server
       (case port of None \<Rightarrow> PyInt 8069 | Some p \<Rightarrow> p)
       (case protocol of None \<Rightarrow> ''xmlrpc'' | Some p \<Rightarrow> p)
       (case timeout of None \<Rightarrow> 120 | Some t \<Rightarrow> t)
       (case version of None \<Rightarrow> None | Some v \<Rightarrow> v)
       w"

definition call_get_json_connector ::
  "ctor_check \<Rightarrow> string \<Rightarrow> pyval option \<Rightarrow> int option \<Rightarrow> string option option
     \<Rightarrow> bool option \<Rightarrow> world \<Rightarrow> (error + connector) \<times> world" where
  "call_get_json_connector chk server port timeout version ssl w =
     get_json_connector chk server
       (case port of None \<Rightarrow> PyInt 8069 | Some p \<Rightarrow> p)
       (case timeout of None \<Rightarrow> 120 | Some t \<Rightarrow> t)
       (case version of None \<Rightarrow> None | Some v \<Rightarrow> v)
       (case ssl of None \<Rightarrow> False | Some b \<Rightarrow> b)
       w"

subsection \<open>How a connector is used\<close>



subsection \<open>Calls through a connector\<close>

text \<open>
  The server as a connector sees it: the newest API version it reports to a capability
  probe, which may depend on the traffic so far, and its answer to a request, a value
  or a fault.
\<close>

datatype fault = RemoteFault string

record remote =
  srv_newest :: "world \<Rightarrow> string"
  srv_answer :: "request \<Rightarrow> fault + string"

definition resolve_version :: "remote \<Rightarrow> connector \<Rightarrow> world \<Rightarrow> connector \<times> world" where
  \<comment> \<open>Modelled from the spec: the connector classes are not among the sources. By
      section 4.2, a connector whose version is unset probes the server lazily, on
      first use, picks the version it reports and pins that choice; by section 3 the
      resolved version is cached for the lifetime of the connector.\<close>
  "resolve_version srv c w =
     (case c_version c of
        None \<Rightarrow> (c\<lparr>c_version := Some (srv_newest srv w)\<rparr>, w @ [Probe])
      | Some v \<Rightarrow> (c, w))"

definition call ::
  "remote \<Rightarrow> connector \<Rightarrow> request \<Rightarrow> world \<Rightarrow> (fault + string) \<times> connector \<times> world" where
  \<comment> \<open>Modelled from the spec: \<open>ServiceProxy.call\<close> is not among the sources. By section
      4.2 one invocation resolves the version if need be and performs exactly one
      logical RPC: it sends the request and returns the decoded value, or the server's
      fault.\<close>
  "call srv c rq w =
     (case resolve_version srv c w of
        (c', w') \<Rightarrow> (srv_answer srv rq, c', w' @ [Sent rq]))"






section \<open>Properties of the factories\<close>

lemma keys_PROTOCOLS: "keys PROTOCOLS = [''xmlrpc+ssl'', ''netrpc'', ''xmlrpc'']"
  by (simp add: keys_def PROTOCOLS_def)

lemma map_of_PROTOCOLS_keys:
  "map_of PROTOCOLS protocol = Some cls \<Longrightarrow> protocol \<in> set (keys PROTOCOLS)"
  by (auto simp add: keys_def PROTOCOLS_def split: if_splits)

text \<open>
  Claim C3. For a protocol identifier that is a key of the registry, \<open>get_connector\<close>
  returns what the registry's class for that identifier returns when applied to exactly
  \<open>server\<close>, \<open>port\<close>, \<open>timeout\<close> and \<open>version\<close>, and nothing else. The
  parameters are taken by name; in the code their order is \<open>server\<close>, \<open>port\<close>,
  \<open>protocol\<close>, \<open>timeout\<close>, \<open>version\<close>.
\<close>

theorem get_connector_registered:
  assumes "map_of PROTOCOLS protocol = Some cls"
  shows "get_connector chk server port protocol timeout version w
           = connector_new chk cls server port timeout version w"
  using assms map_of_PROTOCOLS_keys [OF assms] by (simp add: get_connector_def)

theorem get_connector_registered_witness:
  "map_of PROTOCOLS ''netrpc'' = Some ConnectorNetRPC
   \<and> get_connector accept_all ''localhost'' (PyInt 8070) ''netrpc'' 30 (Some ''6.1'') []
       = connector_new accept_all ConnectorNetRPC ''localhost'' (PyInt 8070) 30
           (Some ''6.1'') []"
proof -
  have h: "map_of PROTOCOLS ''netrpc'' = Some ConnectorNetRPC"
    by (simp add: PROTOCOLS_def)
  show ?thesis
    using h get_connector_registered [OF h, of accept_all "''localhost''" "PyInt 8070" 30
        "Some ''6.1''" "[]"]
    by simp
qed

lemma sublist_str_join: "k \<in> set ks \<Longrightarrow> sublist k (str_join sep ks)"
proof (induction sep ks rule: str_join.induct)
  case (1 sep)
  then show ?case by simp
next
  case (2 sep x)
  then show ?case by simp
next
  case (3 sep x y ys)
  show ?case
  proof (cases "k = x")
    case True
    then show ?thesis by simp
  next
    case False
    with 3 have "sublist k (str_join sep (y # ys))" by simp
    then obtain ps ss where "str_join sep (y # ys) = ps @ k @ ss"
      unfolding sublist_def by blast
    then have "str_join sep (x # y # ys) = (x @ sep @ ps) @ k @ ss" by simp
    then show ?thesis unfolding sublist_def by blast
  qed
qed

lemma sublist_str_list: "k \<in> set ks \<Longrightarrow> sublist (repr_str k) (str_list ks)"
proof -
  assume "k \<in> set ks"
  then have "repr_str k \<in> set (map repr_str ks)" by simp
  then have "sublist (repr_str k) (str_join '', '' (map repr_str ks))"
    by (rule sublist_str_join)
  then obtain ps ss where "str_join '', '' (map repr_str ks) = ps @ repr_str k @ ss"
    unfolding sublist_def by blast
  then have "str_list ks = (''['' @ ps) @ repr_str k @ (ss @ '']'')"
    by (simp add: str_list_def)
  then show ?thesis unfolding sublist_def by blast
qed

lemma sublist_unsupported_txt:
  "k \<in> set ks \<Longrightarrow> sublist (repr_str k) (unsupported_txt protocol ks)"
proof -
  assume "k \<in> set ks"
  then obtain ps ss where "str_list ks = ps @ repr_str k @ ss"
    using sublist_str_list unfolding sublist_def by blast
  then have "\<exists>qs. unsupported_txt protocol ks = qs @ repr_str k @ ss"
    by (simp add: unsupported_txt_def)
  then show ?thesis unfolding sublist_def by blast
qed

text \<open>
  Claim C1. For a protocol identifier that is not a key of the registry,
  \<open>get_connector\<close> gives no connector: its result is the error \<open>ConnectorError\<close>
  (the specification's \<open>UnsupportedProtocol\<close>), raised by the factory itself and
  so at construction. The message names the rejected identifier and lists every key
  of the registry.
\<close>

theorem get_connector_unsupported:
  assumes "protocol \<notin> set (keys PROTOCOLS)"
  shows "fst (get_connector chk server port protocol timeout version w)
           = Inl (ConnectorError (unsupported_txt protocol (keys PROTOCOLS)))
         \<and> (\<forall>k \<in> set (keys PROTOCOLS).
               sublist (repr_str k) (unsupported_txt protocol (keys PROTOCOLS)))
         \<and> sublist (repr_str protocol) (unsupported_txt protocol (keys PROTOCOLS))"
proof -
  have "unsupported_txt protocol (keys PROTOCOLS)
          = ''The protocol '' @ repr_str protocol
              @ ('' is not supported. Please choose a protocol among these ones: ''
                   @ str_list (keys PROTOCOLS))"
    by (simp add: unsupported_txt_def repr_str_def)
  then have "sublist (repr_str protocol) (unsupported_txt protocol (keys PROTOCOLS))"
    unfolding sublist_def by blast
  with assms show ?thesis
    by (simp add: get_connector_def sublist_unsupported_txt)
qed

theorem get_connector_unsupported_witness:
  "''carrier-pigeon'' \<notin> set (keys PROTOCOLS)
   \<and> fst (get_connector accept_all ''localhost'' (PyInt 8069) ''carrier-pigeon'' 120 None [])
       = Inl (ConnectorError ''The protocol 'carrier-pigeon' is not supported. Please choose a protocol among these ones: ['xmlrpc+ssl', 'netrpc', 'xmlrpc']'')
   \<and> sublist (repr_str ''xmlrpc'') (unsupported_txt ''carrier-pigeon'' (keys PROTOCOLS))
   \<and> sublist (repr_str ''xmlrpc+ssl'') (unsupported_txt ''carrier-pigeon'' (keys PROTOCOLS))
   \<and> sublist (repr_str ''netrpc'') (unsupported_txt ''carrier-pigeon'' (keys PROTOCOLS))"
proof -
  have h: "''carrier-pigeon'' \<notin> set (keys PROTOCOLS)"
    by (simp add: keys_PROTOCOLS)
  have msg: "unsupported_txt ''carrier-pigeon'' (keys PROTOCOLS)
               = ''The protocol 'carrier-pigeon' is not supported. Please choose a protocol among these ones: ['xmlrpc+ssl', 'netrpc', 'xmlrpc']''"
    by (simp add: unsupported_txt_def keys_PROTOCOLS str_list_def repr_str_def apos_def)
  have ks: "set (keys PROTOCOLS) = {''xmlrpc'', ''xmlrpc+ssl'', ''netrpc''}"
    by (auto simp add: keys_PROTOCOLS)
  show ?thesis
    using h get_connector_unsupported [OF h, of accept_all "''localhost''" "PyInt 8069" 120
        None "[]"]
    unfolding ks msg [symmetric] by simp
qed

text \<open>
  Claim C2, as the code has it. The registry is a constant with exactly the three keys
  \<open>xmlrpc\<close>, \<open>xmlrpc+ssl\<close> and \<open>netrpc\<close>; neither JSON-RPC class is a value of
  it, and \<open>get_connector\<close> rejects the identifiers \<open>jsonrpc\<close> and \<open>jsonrpc+ssl\<close> as
  unsupported protocols.
\<close>

theorem registry_keys:
  "set (keys PROTOCOLS) = {''xmlrpc'', ''xmlrpc+ssl'', ''netrpc''}
   \<and> length (keys PROTOCOLS) = 3
   \<and> ConnectorJSONRPC \<notin> snd ` set PROTOCOLS
   \<and> ConnectorJSONRPCSSL \<notin> snd ` set PROTOCOLS
   \<and> fst (get_connector chk server port ''jsonrpc'' timeout version w)
       = Inl (ConnectorError (unsupported_txt ''jsonrpc'' (keys PROTOCOLS)))
   \<and> fst (get_connector chk server port ''jsonrpc+ssl'' timeout version w)
       = Inl (ConnectorError (unsupported_txt ''jsonrpc+ssl'' (keys PROTOCOLS)))"
proof -
  have "set (keys PROTOCOLS) = {''xmlrpc'', ''xmlrpc+ssl'', ''netrpc''}"
    by (auto simp add: keys_PROTOCOLS)
  moreover have "length (keys PROTOCOLS) = 3"
    by (simp add: keys_PROTOCOLS)
  moreover have "ConnectorJSONRPC \<notin> snd ` set PROTOCOLS"
    and "ConnectorJSONRPCSSL \<notin> snd ` set PROTOCOLS"
    by (simp_all add: PROTOCOLS_def)
  moreover have "fst (get_connector chk server port ''jsonrpc'' timeout version w)
       = Inl (ConnectorError (unsupported_txt ''jsonrpc'' (keys PROTOCOLS)))"
    by (simp add: get_connector_def keys_PROTOCOLS)
  moreover have "fst (get_connector chk server port ''jsonrpc+ssl'' timeout version w)
       = Inl (ConnectorError (unsupported_txt ''jsonrpc+ssl'' (keys PROTOCOLS)))"
    by (simp add: get_connector_def keys_PROTOCOLS)
  ultimately show ?thesis by simp
qed

theorem registry_keys_witness:
  "set (keys PROTOCOLS) = {''xmlrpc'', ''xmlrpc+ssl'', ''netrpc''}
   \<and> fst (get_connector accept_all ''localhost'' (PyInt 8069) ''jsonrpc'' 120 None [])
       = Inl (ConnectorError (unsupported_txt ''jsonrpc'' (keys PROTOCOLS)))
   \<and> fst (get_connector accept_all ''localhost'' (PyInt 8069) ''jsonrpc+ssl'' 120 None [])
       = Inl (ConnectorError (unsupported_txt ''jsonrpc+ssl'' (keys PROTOCOLS)))"
  using registry_keys [of accept_all "''localhost''" "PyInt 8069" 120 None "[]"] by simp

text \<open>
  The identifiers of the specification's registry are not keys of the code's registry:
  \<open>get_connector\<close> rejects \<open>plain-text-rpc\<close>, which claim C2 lists as supported.
\<close>

theorem registry_spec_identifiers_counterexample:
  "set (keys PROTOCOLS) \<noteq> {''plain-text-rpc'', ''plain-text-rpc+tls'', ''binary-rpc''}
   \<and> ''plain-text-rpc'' \<notin> set (keys PROTOCOLS)
   \<and> fst (get_connector accept_all ''localhost'' (PyInt 8069) ''plain-text-rpc'' 120 None [])
       = Inl (ConnectorError ''The protocol 'plain-text-rpc' is not supported. Please choose a protocol among these ones: ['xmlrpc+ssl', 'netrpc', 'xmlrpc']'')"
proof -
  have "''xmlrpc'' \<in> set (keys PROTOCOLS)"
    by (simp add: keys_PROTOCOLS)
  moreover have "''xmlrpc'' \<notin> {''plain-text-rpc'', ''plain-text-rpc+tls'', ''binary-rpc''}"
    by simp
  ultimately have "set (keys PROTOCOLS)
      \<noteq> {''plain-text-rpc'', ''plain-text-rpc+tls'', ''binary-rpc''}"
    by metis
  moreover have "''plain-text-rpc'' \<notin> set (keys PROTOCOLS)"
    by (simp add: keys_PROTOCOLS)
  moreover have
    "fst (get_connector accept_all ''localhost'' (PyInt 8069) ''plain-text-rpc'' 120 None [])
       = Inl (ConnectorError ''The protocol 'plain-text-rpc' is not supported. Please choose a protocol among these ones: ['xmlrpc+ssl', 'netrpc', 'xmlrpc']'')"
    by (simp add: get_connector_def keys_PROTOCOLS unsupported_txt_def str_list_def
        repr_str_def apos_def)
  ultimately show ?thesis by simp
qed




text \<open>
  Claim C5. In a call of either factory an omitted \<open>port\<close> is 8069, an omitted
  \<open>timeout\<close> is 120 and an omitted \<open>version\<close> is \<open>None\<close>; in a call of
  \<open>get_json_connector\<close> an omitted \<open>ssl\<close> is \<open>False\<close>.
\<close>

theorem factory_defaults:
  "call_get_connector chk server None (Some protocol) (Some timeout) (Some version) w
     = get_connector chk server (PyInt 8069) protocol timeout version w
   \<and> call_get_connector chk server (Some port) (Some protocol) None (Some version) w
     = get_connector chk server port protocol 120 version w
   \<and> call_get_connector chk server (Some port) (Some protocol) (Some timeout) None w
     = get_connector chk server port protocol timeout None w
   \<and> call_get_connector chk server None (Some protocol) None None w
     = get_connector chk server (PyInt 8069) protocol 120 None w
   \<and> call_get_json_connector chk server None (Some timeout) (Some version) (Some ssl) w
     = get_json_connector chk server (PyInt 8069) timeout version ssl w
   \<and> call_get_json_connector chk server (Some port) None (Some version) (Some ssl) w
     = get_json_connector chk server port 120 version ssl w
   \<and> call_get_json_connector chk server (Some port) (Some timeout) None (Some ssl) w
     = get_json_connector chk server port timeout None ssl w
   \<and> call_get_json_connector chk server (Some port) (Some timeout) (Some version) None w
     = get_json_connector chk server port timeout version False w
   \<and> call_get_json_connector chk server None None None None w
     = get_json_connector chk server (PyInt 8069) 120 None False w"
  by (simp add: call_get_connector_def call_get_json_connector_def)

theorem factory_defaults_witness:
  "call_get_connector accept_all ''localhost'' None (Some ''netrpc'') None None []
     = get_connector accept_all ''localhost'' (PyInt 8069) ''netrpc'' 120 None []
   \<and> call_get_json_connector accept_all ''localhost'' None None None None []
     = get_json_connector accept_all ''localhost'' (PyInt 8069) 120 None False []"
  using factory_defaults [of accept_all "''localhost''" "''netrpc''" 0 None "[]" "PyInt 0" False]
  by simp

text \<open>
  Claim C9. The parameter \<open>protocol\<close> of \<open>get_connector\<close> is optional and defaults to
  \<open>xmlrpc\<close>: a call that gives only \<open>server\<close> returns the class \<open>ConnectorXMLRPC\<close>
  applied to \<open>server\<close> and the defaults of the other parameters.
\<close>

theorem protocol_default:
  "call_get_connector chk server (Some port) None (Some timeout) (Some version) w
     = get_connector chk server port ''xmlrpc'' timeout version w
   \<and> call_get_connector chk server None None None None w
     = connector_new chk ConnectorXMLRPC server (PyInt 8069) 120 None w"
  by (simp add: call_get_connector_def get_connector_def keys_PROTOCOLS)
     (simp add: PROTOCOLS_def)

theorem protocol_default_witness:
  "call_get_connector accept_all ''localhost'' None None None None []
     = connector_new accept_all ConnectorXMLRPC ''localhost'' (PyInt 8069) 120 None []"
  using protocol_default [of accept_all "''localhost''" "PyInt 0" 0 None "[]"] by simp

section \<open>Properties of construction and of calls\<close>

lemma connector_new_log: "snd (connector_new chk cls server port timeout version w) = w"
  by (simp add: connector_new_def split: option.split)

lemma call_log:
  "snd (snd (call srv c rq w))
     = w @ (if c_version c = None then [Probe] else []) @ [Sent rq]"
  by (simp add: call_def resolve_version_def split: option.split)








text \<open>
  Claim C6. Neither factory does any network I/O, whatever its arguments and whether
  it returns a connector or an error: the log of network events after the call is the
  log before it. The I/O happens at a remote call, which extends the log.
\<close>

theorem factories_no_io:
  "snd (get_connector chk server port protocol timeout version w) = w
   \<and> snd (get_json_connector chk server port timeout version ssl w) = w
   \<and> length w < length (snd (snd (call srv c rq w)))"
proof -
  have "snd (get_connector chk server port protocol timeout version w) = w"
    by (simp add: get_connector_def connector_new_log split: option.split)
  moreover have "snd (get_json_connector chk server port timeout version ssl w) = w"
    by (simp add: get_json_connector_def connector_new_log)
  moreover have "length w < length (snd (snd (call srv c rq w)))"
    by (simp add: call_log)
  ultimately show ?thesis by simp
qed

theorem factories_no_io_witness:
  "snd (get_connector accept_all ''localhost'' (PyInt 8069) ''xmlrpc'' 120 None [Probe])
     = [Probe]
   \<and> snd (get_connector accept_all ''localhost'' (PyInt 8069) ''carrier-pigeon'' 120 None
            [Probe]) = [Probe]
   \<and> snd (get_json_connector accept_all ''localhost'' (PyInt 8069) 120 None True [Probe])
     = [Probe]"
  using factories_no_io [of accept_all "''localhost''" "PyInt 8069" "''xmlrpc''" 120 None
      "[Probe]" True]
    factories_no_io [of accept_all "''localhost''" "PyInt 8069" "''carrier-pigeon''" 120 None
      "[Probe]" True]
  by simp



end
